theory Spec2Isabelle
  imports Main "HOL-Library.Sublist"
begin

section \<open>TypeScript types of the RPC schema (src/types/eip1193.ts)\<close>

text \<open>
  The file eip1193.ts is a program at the level of types: three tables of method
  shapes and the type functions \<open>EIP1193Parameters\<close>, \<open>DerivedRpcSchema\<close> and
  \<open>EIP1193RequestFn\<close> that compute, from a table, what a request may look like and what
  it returns. A TypeScript type is a value of \<open>ts_type\<close>; a type function is a HOL
  function on these values.

  Types imported from other modules (Quantity, Hash, Hex, Address, ...) are not part of
  this file: they are opaque names, \<open>TRef\<close>. Type aliases declared in the file itself are
  transparent, as in TypeScript, and are constants of type \<open>ts_type\<close>.
  A tuple element carries its label (the empty string when the source gives none);
  an object member carries its name and whether it is optional (\<open>name?:\<close>).
\<close>

datatype ts_type =
    TAny | TUnknown | TNever | TVoid | TNull | TUndefined
  | TString | TNumber | TBoolean
  | TLit string
  | TFalse
  | TTemplate string
  | TRef string
  | TArray ts_type
  | TReadonlyArray ts_type
  | TTuple "(string \<times> ts_type) list"
  | TUnion "ts_type list"
  | TIntersection "ts_type list"
  | TObject "(string \<times> bool \<times> ts_type) list"
  | TPartial ts_type
  | TRecord ts_type ts_type

text \<open>The imported types, under the names the file gives them.\<close>

abbreviation Address :: ts_type where "Address \<equiv> TRef ''Address''"
abbreviation BlockTag :: ts_type where "BlockTag \<equiv> TRef ''BlockTag''"
abbreviation Hash :: ts_type where "Hash \<equiv> TRef ''Hash''"
abbreviation Hex :: ts_type where "Hex \<equiv> TRef ''Hex''"
abbreviation LogTopic :: ts_type where "LogTopic \<equiv> TRef ''LogTopic''"
abbreviation Quantity :: ts_type where "Quantity \<equiv> TRef ''Quantity''"
abbreviation Block :: ts_type where "Block \<equiv> TRef ''Block''"
abbreviation BlockIdentifier :: ts_type where "BlockIdentifier \<equiv> TRef ''BlockIdentifier''"
abbreviation BlockNumber :: ts_type where "BlockNumber \<equiv> TRef ''BlockNumber''"
abbreviation FeeHistory :: ts_type where "FeeHistory \<equiv> TRef ''FeeHistory''"
abbreviation Log :: ts_type where "Log \<equiv> TRef ''Log''"
abbreviation Transaction :: ts_type where "Transaction \<equiv> TRef ''Transaction''"
abbreviation TransactionReceipt :: ts_type where "TransactionReceipt \<equiv> TRef ''TransactionReceipt''"
abbreviation TransactionRequest :: ts_type where "TransactionRequest \<equiv> TRef ''TransactionRequest''"
abbreviation Uncle :: ts_type where "Uncle \<equiv> TRef ''Uncle''"

text \<open>The object types the file declares for the wallet methods.\<close>

definition AddEthereumChainParameter :: ts_type where
  "AddEthereumChainParameter = TObject
     [(''chainId'', False, TString),
      (''chainName'', False, TString),
      (''nativeCurrency'', True,
         TObject [(''name'', False, TString), (''symbol'', False, TString),
                  (''decimals'', False, TNumber)]),
      (''rpcUrls'', False, TReadonlyArray TString),
      (''blockExplorerUrls'', True, TArray TString),
      (''iconUrls'', True, TArray TString)]"

definition NetworkSync :: ts_type where
  "NetworkSync = TObject
     [(''currentBlock'', False, Quantity),
      (''highestBlock'', False, Quantity),
      (''startingBlock'', False, Quantity)]"

definition WalletPermissionCaveat :: ts_type where
  "WalletPermissionCaveat = TObject [(''type'', False, TString), (''value'', False, TAny)]"

definition WalletPermission :: ts_type where
  "WalletPermission = TObject
     [(''caveats'', False, TArray WalletPermissionCaveat),
      (''date'', False, TNumber),
      (''id'', False, TString),
      (''invoker'', False, TUnion [TTemplate ''http://'', TTemplate ''https://'']),
      (''parentCapability'', False, TUnion [TLit ''eth_accounts'', TString])]"

definition WatchAssetParams :: ts_type where
  "WatchAssetParams = TObject
     [(''type'', False, TLit ''ERC20''),
      (''options'', False,
         TObject [(''address'', False, TString), (''symbol'', False, TString),
                  (''decimals'', False, TNumber), (''image'', True, TString)])]"

subsection \<open>Schema entries\<close>

text \<open>
  An entry of a schema is an object type with the members \<open>Method\<close>, \<open>Parameters\<close> and
  \<open>ReturnType\<close>. \<open>Method\<close> is a string literal type. The member \<open>Parameters\<close> is
  declared either as \<open>Parameters: T\<close> (\<open>Required T\<close>) or as \<open>Parameters?: T\<close>
  (\<open>Optional T\<close>); an entry of a method without parameters is written
  \<open>Parameters?: never\<close>.
\<close>

datatype param_decl = Required ts_type | Optional ts_type

record rpc_entry =
  Method :: string
  Parameters :: param_decl
  ReturnType :: ts_type

type_synonym rpc_schema = "rpc_entry list"

definition PublicRpcSchema :: rpc_schema where
  "PublicRpcSchema =
   [\<lparr>Method = ''web3_clientVersion'', Parameters = Optional TNever, ReturnType = TString\<rparr>,
    \<lparr>Method = ''web3_sha3'', Parameters = Required (TTuple [(''data'', Hash)]),
       ReturnType = TString\<rparr>,
    \<lparr>Method = ''net_listening'', Parameters = Optional TNever, ReturnType = TBoolean\<rparr>,
    \<lparr>Method = ''net_peerCount'', Parameters = Optional TNever, ReturnType = Quantity\<rparr>,
    \<lparr>Method = ''net_version'', Parameters = Optional TNever, ReturnType = Quantity\<rparr>,
    \<lparr>Method = ''eth_blockNumber'', Parameters = Optional TNever, ReturnType = Quantity\<rparr>,
    \<lparr>Method = ''eth_call'',
       Parameters = Required (TUnion
         [TTuple [(''transaction'', TPartial TransactionRequest)],
          TTuple [(''transaction'', TPartial TransactionRequest),
                  (''block'', TUnion [BlockNumber, BlockTag, BlockIdentifier])]]),
       ReturnType = Hex\<rparr>,
    \<lparr>Method = ''eth_chainId'', Parameters = Optional TNever, ReturnType = Quantity\<rparr>,
    \<lparr>Method = ''eth_coinbase'', Parameters = Optional TNever, ReturnType = Address\<rparr>,
    \<lparr>Method = ''eth_estimateGas'',
       Parameters = Required (TUnion
         [TTuple [(''transaction'', TransactionRequest)],
          TTuple [(''transaction'', TransactionRequest),
                  (''block'', TUnion [BlockNumber, BlockTag])]]),
       ReturnType = Quantity\<rparr>,
    \<lparr>Method = ''eth_feeHistory'',
       Parameters = Required (TTuple
         [(''blockCount'', Quantity),
          (''newestBlock'', TUnion [BlockNumber, BlockTag]),
          (''rewardPercentiles'', TUnion [TArray TNumber, TUndefined])]),
       ReturnType = FeeHistory\<rparr>,
    \<lparr>Method = ''eth_gasPrice'', Parameters = Optional TNever, ReturnType = Quantity\<rparr>,
    \<lparr>Method = ''eth_getBalance'',
       Parameters = Required (TTuple
         [(''address'', Address),
          (''block'', TUnion [BlockNumber, BlockTag, BlockIdentifier])]),
       ReturnType = Quantity\<rparr>,
    \<lparr>Method = ''eth_getBlockByHash'',
       Parameters = Required (TTuple
         [(''hash'', Hash), (''includeTransactionObjects'', TBoolean)]),
       ReturnType = TUnion [Block, TNull]\<rparr>,
    \<lparr>Method = ''eth_getBlockByNumber'',
       Parameters = Required (TTuple
         [(''block'', TUnion [BlockNumber, BlockTag]),
          (''includeTransactionObjects'', TBoolean)]),
       ReturnType = TUnion [Block, TNull]\<rparr>,
    \<lparr>Method = ''eth_getBlockTransactionCountByHash'',
       Parameters = Required (TTuple [(''hash'', Hash)]), ReturnType = Quantity\<rparr>,
    \<lparr>Method = ''eth_getBlockTransactionCountByNumber'',
       Parameters = Required (TTuple [(''block'', TUnion [BlockNumber, BlockTag])]),
       ReturnType = Quantity\<rparr>,
    \<lparr>Method = ''eth_getCode'',
       Parameters = Required (TTuple
         [(''address'', Address),
          (''block'', TUnion [BlockNumber, BlockTag, BlockIdentifier])]),
       ReturnType = Hex\<rparr>,
    \<lparr>Method = ''eth_getFilterChanges'',
       Parameters = Required (TTuple [(''filterId'', Quantity)]),
       ReturnType = TUnion [TArray Log, TArray Hex]\<rparr>,
    \<lparr>Method = ''eth_getFilterLogs'',
       Parameters = Required (TTuple [(''filterId'', Quantity)]),
       ReturnType = TArray Log\<rparr>,
    \<lparr>Method = ''eth_getLogs'',
       Parameters = Required (TTuple
         [('''', TIntersection
            [TObject [(''address'', True, TUnion [Address, TArray Address]),
                      (''topics'', True, TArray LogTopic)],
             TUnion
               [TObject [(''fromBlock'', True, TUnion [BlockNumber, BlockTag]),
                         (''toBlock'', True, TUnion [BlockNumber, BlockTag]),
                         (''blockHash'', True, TNever)],
                TObject [(''fromBlock'', True, TNever),
                         (''toBlock'', True, TNever),
                         (''blockHash'', True, Hash)]]])]),
       ReturnType = TArray Log\<rparr>,
    \<lparr>Method = ''eth_getStorageAt'',
       Parameters = Required (TTuple
         [(''address'', Address), (''index'', Quantity),
          (''block'', TUnion [BlockNumber, BlockTag, BlockIdentifier])]),
       ReturnType = Hex\<rparr>,
    \<lparr>Method = ''eth_getTransactionByBlockHashAndIndex'',
       Parameters = Required (TTuple [(''hash'', Hash), (''index'', Quantity)]),
       ReturnType = TUnion [Transaction, TNull]\<rparr>,
    \<lparr>Method = ''eth_getTransactionByBlockNumberAndIndex'',
       Parameters = Required (TTuple
         [(''block'', TUnion [BlockNumber, BlockTag]), (''index'', Quantity)]),
       ReturnType = TUnion [Transaction, TNull]\<rparr>,
    \<lparr>Method = ''eth_getTransactionByHash'',
       Parameters = Required (TTuple [(''hash'', Hash)]),
       ReturnType = TUnion [Transaction, TNull]\<rparr>,
    \<lparr>Method = ''eth_getTransactionCount'',
       Parameters = Required (TTuple
         [(''address'', Address),
          (''block'', TUnion [BlockNumber, BlockTag, BlockIdentifier])]),
       ReturnType = Quantity\<rparr>,
    \<lparr>Method = ''eth_getTransactionReceipt'',
       Parameters = Required (TTuple [(''hash'', Hash)]),
       ReturnType = TUnion [TransactionReceipt, TNull]\<rparr>,
    \<lparr>Method = ''eth_getUncleByBlockHashAndIndex'',
       Parameters = Required (TTuple [(''hash'', Hash), (''index'', Quantity)]),
       ReturnType = TUnion [Uncle, TNull]\<rparr>,
    \<lparr>Method = ''eth_getUncleByBlockNumberAndIndex'',
       Parameters = Required (TTuple
         [(''block'', TUnion [BlockNumber, BlockTag]), (''index'', Quantity)]),
       ReturnType = TUnion [Uncle, TNull]\<rparr>,
    \<lparr>Method = ''eth_getUncleCountByBlockHash'',
       Parameters = Required (TTuple [(''hash'', Hash)]), ReturnType = Quantity\<rparr>,
    \<lparr>Method = ''eth_getUncleCountByBlockNumber'',
       Parameters = Required (TTuple [(''block'', TUnion [BlockNumber, BlockTag])]),
       ReturnType = Quantity\<rparr>,
    \<lparr>Method = ''eth_newBlockFilter'', Parameters = Optional TNever, ReturnType = Quantity\<rparr>,
    \<lparr>Method = ''eth_newFilter'',
       Parameters = Required (TTuple
         [(''filter'', TObject
            [(''fromBlock'', True, TUnion [BlockNumber, BlockTag]),
             (''toBlock'', True, TUnion [BlockNumber, BlockTag]),
             (''address'', True, TUnion [Address, TArray Address]),
             (''topics'', True, TArray LogTopic)])]),
       ReturnType = Quantity\<rparr>,
    \<lparr>Method = ''eth_newPendingTransactionFilter'', Parameters = Optional TNever,
       ReturnType = Quantity\<rparr>,
    \<lparr>Method = ''eth_protocolVersion'', Parameters = Optional TNever, ReturnType = TString\<rparr>,
    \<lparr>Method = ''eth_sendRawTransaction'',
       Parameters = Required (TTuple [(''signedTransaction'', Hex)]), ReturnType = Hash\<rparr>,
    \<lparr>Method = ''eth_uninstallFilter'',
       Parameters = Required (TTuple [(''filterId'', Quantity)]), ReturnType = TBoolean\<rparr>]"

text \<open>
  \<open>TestRpcSchema\<close> has a type parameter \<open>TMode extends string\<close>, the prefix of the
  methods a dev node names after itself. The mode is taken as one string literal
  (\<open>'anvil'\<close> in the example of the action increaseTime), so that every \<open>Method\<close> of
  the instantiated table is again a string literal: the template
  \<open>`${TMode}_mine`\<close> is \<open>TMode @ ''_mine''\<close>.
\<close>

definition TestRpcSchema :: "string \<Rightarrow> rpc_schema" where
  "TestRpcSchema TMode =
   [\<lparr>Method = TMode @ ''_addCompilationResult'', Parameters = Required (TArray TAny),
       ReturnType = TAny\<rparr>,
    \<lparr>Method = TMode @ ''_dropTransaction'',
       Parameters = Required (TTuple [(''hash'', Hash)]), ReturnType = TVoid\<rparr>,
    \<lparr>Method = TMode @ ''_enableTraces'', Parameters = Optional TNever, ReturnType = TVoid\<rparr>,
    \<lparr>Method = TMode @ ''_impersonateAccount'',
       Parameters = Required (TTuple [(''address'', Address)]), ReturnType = TVoid\<rparr>,
    \<lparr>Method = TMode @ ''_getAutomine'', Parameters = Optional TNever, ReturnType = TBoolean\<rparr>,
    \<lparr>Method = TMode @ ''_mine'',
       Parameters = Required (TTuple
         [(''count'', Hex), (''interval'', TUnion [Hex, TUndefined])]),
       ReturnType = TVoid\<rparr>,
    \<lparr>Method = TMode @ ''_reset'', Parameters = Required (TArray TAny), ReturnType = TVoid\<rparr>,
    \<lparr>Method = TMode @ ''_setBalance'',
       Parameters = Required (TTuple [(''address'', Address), (''balance'', Quantity)]),
       ReturnType = TVoid\<rparr>,
    \<lparr>Method = TMode @ ''_setCode'',
       Parameters = Required (TTuple [(''address'', Address), (''data'', TString)]),
       ReturnType = TVoid\<rparr>,
    \<lparr>Method = TMode @ ''_setCoinbase'',
       Parameters = Required (TTuple [(''address'', Address)]), ReturnType = TVoid\<rparr>,
    \<lparr>Method = TMode @ ''_setLoggingEnabled'',
       Parameters = Required (TTuple [(''enabled'', TBoolean)]), ReturnType = TVoid\<rparr>,
    \<lparr>Method = TMode @ ''_setMinGasPrice'',
       Parameters = Required (TTuple [(''gasPrice'', Quantity)]), ReturnType = TVoid\<rparr>,
    \<lparr>Method = TMode @ ''_setNextBlockBaseFeePerGas'',
       Parameters = Required (TTuple [(''baseFeePerGas'', Quantity)]), ReturnType = TVoid\<rparr>,
    \<lparr>Method = TMode @ ''_setNonce'',
       Parameters = Required (TTuple [(''address'', Address), (''nonce'', Quantity)]),
       ReturnType = TVoid\<rparr>,
    \<lparr>Method = TMode @ ''_setRpcUrl'',
       Parameters = Required (TTuple [(''url'', TString)]), ReturnType = TVoid\<rparr>,
    \<lparr>Method = TMode @ ''_setStorageAt'',
       Parameters = Required (TTuple
         [(''address'', Address), (''index'', Quantity), (''value'', Quantity)]),
       ReturnType = TVoid\<rparr>,
    \<lparr>Method = TMode @ ''_stopImpersonatingAccount'',
       Parameters = Required (TTuple [(''address'', Address)]), ReturnType = TVoid\<rparr>,
    \<lparr>Method = TMode @ ''_increaseTime'',
       Parameters = Required (TTuple [(''seconds'', TNumber)]), ReturnType = Quantity\<rparr>,
    \<lparr>Method = ''evm_setAutomine'',
       Parameters = Required (TTuple [('''', TBoolean)]), ReturnType = TVoid\<rparr>,
    \<lparr>Method = ''evm_setBlockGasLimit'',
       Parameters = Required (TTuple [(''gasLimit'', Quantity)]), ReturnType = TVoid\<rparr>,
    \<lparr>Method = ''evm_increaseTime'',
       Parameters = Required (TTuple [(''seconds'', Quantity)]), ReturnType = Quantity\<rparr>,
    \<lparr>Method = TMode @ ''_setBlockTimestampInterval'',
       Parameters = Required (TTuple [(''seconds'', TNumber)]), ReturnType = TVoid\<rparr>,
    \<lparr>Method = TMode @ ''_removeBlockTimestampInterval'', Parameters = Optional TNever,
       ReturnType = TVoid\<rparr>,
    \<lparr>Method = ''evm_setIntervalMining'',
       Parameters = Required (TTuple [('''', TNumber)]), ReturnType = TVoid\<rparr>,
    \<lparr>Method = ''evm_setNextBlockTimestamp'',
       Parameters = Required (TTuple [('''', Quantity)]), ReturnType = TVoid\<rparr>,
    \<lparr>Method = ''evm_snapshot'', Parameters = Optional TNever, ReturnType = Quantity\<rparr>,
    \<lparr>Method = ''evm_revert'',
       Parameters = Optional (TTuple [(''id'', Quantity)]), ReturnType = TVoid\<rparr>,
    \<lparr>Method = ''txpool_content'', Parameters = Optional TNever,
       ReturnType = TObject
         [(''pending'', False, TRecord Address (TRecord TString Transaction)),
          (''queued'', False, TRecord Address (TRecord TString Transaction))]\<rparr>,
    \<lparr>Method = ''txpool_inspect'', Parameters = Optional TNever,
       ReturnType = TObject
         [(''pending'', False, TRecord Address (TRecord TString TString)),
          (''queued'', False, TRecord Address (TRecord TString TString))]\<rparr>,
    \<lparr>Method = ''txpool_status'', Parameters = Optional TNever,
       ReturnType = TObject
         [(''pending'', False, Quantity), (''queued'', False, Quantity)]\<rparr>,
    \<lparr>Method = ''eth_sendUnsignedTransaction'',
       Parameters = Required (TTuple [(''transaction'', TransactionRequest)]),
       ReturnType = Hash\<rparr>]"

definition WalletRpcSchema :: rpc_schema where
  "WalletRpcSchema =
   [\<lparr>Method = ''eth_accounts'', Parameters = Optional TNever, ReturnType = TArray Address\<rparr>,
    \<lparr>Method = ''eth_chainId'', Parameters = Optional TNever, ReturnType = Quantity\<rparr>,
    \<lparr>Method = ''eth_estimateGas'',
       Parameters = Required (TUnion
         [TTuple [(''transaction'', TransactionRequest)],
          TTuple [(''transaction'', TransactionRequest),
                  (''block'', TUnion [BlockNumber, BlockTag])]]),
       ReturnType = Quantity\<rparr>,
    \<lparr>Method = ''eth_requestAccounts'', Parameters = Optional TNever,
       ReturnType = TArray Address\<rparr>,
    \<lparr>Method = ''eth_sendTransaction'',
       Parameters = Required (TTuple [(''transaction'', TransactionRequest)]),
       ReturnType = Hash\<rparr>,
    \<lparr>Method = ''eth_sendRawTransaction'',
       Parameters = Required (TTuple [(''signedTransaction'', Hex)]), ReturnType = Hash\<rparr>,
    \<lparr>Method = ''eth_sign'',
       Parameters = Required (TTuple [(''address'', Address), (''data'', Hex)]),
       ReturnType = Hex\<rparr>,
    \<lparr>Method = ''eth_signTransaction'',
       Parameters = Required (TTuple [(''request'', TransactionRequest)]),
       ReturnType = Hex\<rparr>,
    \<lparr>Method = ''eth_signTypedData_v4'',
       Parameters = Required (TTuple [(''address'', Address), (''message'', TString)]),
       ReturnType = Hex\<rparr>,
    \<lparr>Method = ''eth_syncing'', Parameters = Optional TNever,
       ReturnType = TUnion [NetworkSync, TFalse]\<rparr>,
    \<lparr>Method = ''personal_sign'',
       Parameters = Required (TTuple [(''data'', Hex), (''address'', Address)]),
       ReturnType = Hex\<rparr>,
    \<lparr>Method = ''wallet_addEthereumChain'',
       Parameters = Required (TTuple [(''chain'', AddEthereumChainParameter)]),
       ReturnType = TNull\<rparr>,
    \<lparr>Method = ''wallet_getPermissions'', Parameters = Optional TNever,
       ReturnType = TArray WalletPermission\<rparr>,
    \<lparr>Method = ''wallet_requestPermissions'',
       Parameters = Required (TTuple
         [(''permissions'', TObject [(''eth_accounts'', False, TRecord TString TAny)])]),
       ReturnType = TArray WalletPermission\<rparr>,
    \<lparr>Method = ''wallet_switchEthereumChain'',
       Parameters = Required (TTuple [(''chain'', TObject [(''chainId'', False, TString)])]),
       ReturnType = TNull\<rparr>,
    \<lparr>Method = ''wallet_watchAsset'', Parameters = Required WatchAssetParams,
       ReturnType = TBoolean\<rparr>]"

text \<open>\<open>EIP1474Methods = [...PublicRpcSchema, ...WalletRpcSchema]\<close>: the provider's table.\<close>

definition EIP1474Methods :: rpc_schema where
  "EIP1474Methods = PublicRpcSchema @ WalletRpcSchema"

subsection \<open>The operations on types the file uses\<close>

text \<open>
  A union type: nested unions are flattened, \<open>never\<close> is dropped, equal members are
  merged, \<open>any\<close> and \<open>unknown\<close> absorb the rest; the union of no type is \<open>never\<close> and the
  union of one type is that type.
\<close>

fun union_members :: "ts_type \<Rightarrow> ts_type list" where
  "union_members (TUnion ts) = ts"
| "union_members t = [t]"

definition ts_union :: "ts_type list \<Rightarrow> ts_type" where
  "ts_union ts =
     (let us = remdups (filter (\<lambda>t. t \<noteq> TNever) (concat (map union_members ts)))
      in if TAny \<in> set us then TAny
         else if TUnknown \<in> set us then TUnknown
         else (case us of [] \<Rightarrow> TNever | [t] \<Rightarrow> t | _ \<Rightarrow> TUnion us))"

text \<open>
  The indexed access \<open>E['Parameters']\<close> on an entry: the declared type, joined with
  \<open>undefined\<close> when the member is optional.
\<close>

fun indexed_Parameters :: "param_decl \<Rightarrow> ts_type" where
  "indexed_Parameters (Required t) = t"
| "indexed_Parameters (Optional t) = ts_union [t, TUndefined]"

text \<open>\<open>T extends undefined\<close>, for a type that is not \<open>any\<close>.\<close>

fun extends_undefined :: "ts_type \<Rightarrow> bool" where
  "extends_undefined TUndefined = True"
| "extends_undefined TNever = True"
| "extends_undefined (TUnion ts) = list_all extends_undefined ts"
| "extends_undefined _ = False"

text \<open>
  \<open>'m' extends T\<close> for a string literal type \<open>'m'\<close>: the literal itself, \<open>string\<close>, a
  template \<open>`p${string}`\<close> that \<open>m\<close> starts with, a union with such a member, or a top
  type.
\<close>

fun lit_extends :: "string \<Rightarrow> ts_type \<Rightarrow> bool" where
  "lit_extends m (TLit l) = (m = l)"
| "lit_extends m TString = True"
| "lit_extends m TAny = True"
| "lit_extends m TUnknown = True"
| "lit_extends m (TTemplate p) = prefix p m"
| "lit_extends m (TUnion ts) = list_ex (lit_extends m) ts"
| "lit_extends m _ = False"

text \<open>The member \<open>name\<close> of an object type: whether it is optional, and its type.\<close>

fun object_member :: "string \<Rightarrow> ts_type \<Rightarrow> (bool \<times> ts_type) option" where
  "object_member name (TObject ms) = map_of ms name"
| "object_member name _ = None"

subsection \<open>EIP1193Parameters, DerivedRpcSchema, EIP1193RequestFn\<close>

text \<open>
  A schema argument \<open>TRpcSchema extends RpcSchema | undefined\<close> is an optional table,
  \<open>None\<close> for \<open>undefined\<close>.

  \<open>EIP1193Parameters\<close> maps every entry of the table to the object type
  \<open>{ method: E['Method'] } & ({ params?: never } | { params: E['Parameters'] })\<close>, the
  first arm when \<open>E['Parameters'] extends undefined\<close>, and takes the union over the
  entries (\<open>[number]\<close>); \<open>Prettify\<close> writes the intersection as one object. A
  conditional type on \<open>any\<close> gives both arms. Without a table the result is
  \<open>{ method: string, params?: unknown }\<close>.
\<close>

definition params_arms :: "param_decl \<Rightarrow> (string \<times> bool \<times> ts_type) list" where
  "params_arms p =
     (let t = indexed_Parameters p
      in if t = TAny then [(''params'', True, TNever), (''params'', False, t)]
         else if extends_undefined t then [(''params'', True, TNever)]
         else [(''params'', False, t)])"

definition entry_parameters :: "rpc_entry \<Rightarrow> ts_type list" where
  "entry_parameters e =
     map (\<lambda>arm. TObject [(''method'', False, TLit (Method e)), arm]) (params_arms (Parameters e))"

definition EIP1193Parameters :: "rpc_schema option \<Rightarrow> ts_type" where
  "EIP1193Parameters TRpcSchema =
     (case TRpcSchema of
        Some schema \<Rightarrow> ts_union (concat (map entry_parameters schema))
      | None \<Rightarrow> TObject [(''method'', False, TString), (''params'', True, TUnknown)])"

definition DerivedRpcSchema :: "rpc_schema option \<Rightarrow> rpc_schema option \<Rightarrow> rpc_schema option" where
  "DerivedRpcSchema TRpcSchema TRpcSchemaOverrides =
     (case TRpcSchemaOverrides of Some overrides \<Rightarrow> Some overrides | None \<Rightarrow> TRpcSchema)"

text \<open>
  \<open>Extract<Schema[number], { Method: M }>\<close>: the entries \<open>E\<close> of the table with
  \<open>E extends { Method: M }\<close>, that is, whose \<open>Method\<close> literal extends \<open>M\<close>.
\<close>

definition Extract_Method :: "rpc_schema \<Rightarrow> ts_type \<Rightarrow> rpc_entry list" where
  "Extract_Method schema M = filter (\<lambda>e. lit_extends (Method e) M) schema"

text \<open>
  \<open>EIP1193RequestFn<TRpcSchema>\<close> is the generic function type
  \<open>(args: TParameters) => Promise<_ReturnType>\<close>. Its parameter type is bounded by
  \<open>EIP1193Parameters<DerivedRpcSchema<TRpcSchema, TRpcSchemaOverrides>>\<close>; its result
  is computed from the type \<open>M = TParameters['method']\<close> of the argument's method.
\<close>

definition EIP1193RequestFn_Parameters ::
  "rpc_schema option \<Rightarrow> rpc_schema option \<Rightarrow> ts_type" where
  "EIP1193RequestFn_Parameters TRpcSchema TRpcSchemaOverrides =
     EIP1193Parameters (DerivedRpcSchema TRpcSchema TRpcSchemaOverrides)"

definition EIP1193RequestFn_ReturnType ::
  "rpc_schema option \<Rightarrow> rpc_schema option \<Rightarrow> ts_type \<Rightarrow> ts_type" where
  "EIP1193RequestFn_ReturnType TRpcSchema TRpcSchemaOverrides M =
     (case DerivedRpcSchema TRpcSchema TRpcSchemaOverrides of
        Some schema \<Rightarrow> ts_union (map ReturnType (Extract_Method schema M))
      | None \<Rightarrow> TUnknown)"

text \<open>
  An argument \<open>{ method: 'm', ... }\<close> can only be given to a function whose parameter
  type has a member of the union with a \<open>method\<close> that \<open>'m'\<close> extends.
\<close>

definition accepts_method :: "ts_type \<Rightarrow> string \<Rightarrow> bool" where
  "accepts_method P m =
     list_ex (\<lambda>shape. case object_member ''method'' shape of
                        Some (opt, t) \<Rightarrow> lit_extends m t
                      | None \<Rightarrow> False)
             (union_members P)"

text \<open>The provider: \<open>request: EIP1193RequestFn<EIP1474Methods>\<close>.\<close>

definition EIP1193Provider_request :: "rpc_schema option" where
  "EIP1193Provider_request = Some EIP1474Methods"

subsection \<open>Shapes of parameter lists\<close>

text \<open>
  The wire model of a request has \<open>params\<close> as an ordered sequence. A type describes
  such a sequence when it is a tuple, an array, or a union of these. A declaration
  \<open>Parameters?: never\<close> declares no parameters at all.
\<close>

fun is_sequence :: "ts_type \<Rightarrow> bool" where
  "is_sequence (TTuple es) = True"
| "is_sequence (TArray t) = True"
| "is_sequence (TReadonlyArray t) = True"
| "is_sequence (TUnion ts) = (ts \<noteq> [] \<and> list_all is_sequence ts)"
| "is_sequence _ = False"

fun declares_sequence :: "param_decl \<Rightarrow> bool" where
  "declares_sequence (Required t) = is_sequence t"
| "declares_sequence (Optional t) = (t = TNever \<or> is_sequence t)"

text \<open>
  \<open>accepts_length t n\<close>: a list of \<open>n\<close> positional values can have the type \<open>t\<close>. A tuple
  type fixes the length (an element of type \<open>T | undefined\<close> is still an element).
\<close>

fun accepts_length :: "ts_type \<Rightarrow> nat \<Rightarrow> bool" where
  "accepts_length (TTuple es) n = (n = length es)"
| "accepts_length (TArray t) n = True"
| "accepts_length (TReadonlyArray t) n = True"
| "accepts_length (TUnion ts) n = list_ex (\<lambda>t. accepts_length t n) ts"
| "accepts_length _ n = False"

text \<open>Object types: the members of the union that \<open>EIP1193Parameters\<close> builds.\<close>

fun is_object :: "ts_type \<Rightarrow> bool" where
  "is_object (TObject ms) = True"
| "is_object _ = False"

text \<open>The entries of a table under a method name, and the names of a table.\<close>

definition entries_of :: "rpc_schema \<Rightarrow> string \<Rightarrow> rpc_entry list" where
  "entries_of schema m = filter (\<lambda>e. Method e = m) schema"

definition methods_of :: "rpc_schema \<Rightarrow> string list" where
  "methods_of schema = map Method schema"

section \<open>The action increaseTime (actions/test/increaseTime.ts)\<close>

text \<open>
  \<^verbatim>\<open>
  export async function increaseTime(client, { seconds }: IncreaseTimeParameters) {
    return await client.request({
      method: 'evm_increaseTime',
      params: [numberToHex(seconds)],
    })
  }
  \<close>
  An asynchronous computation takes the world \<open>'w\<close> (the transport and the node behind
  it) and settles with a rejection \<open>Inl\<close> or a value \<open>Inr\<close>, leaving a new world.
  Of the client the action uses the member \<open>request\<close> only; the member \<open>method\<close> of
  the request object is the field \<open>method'\<close>. \<open>numberToHex\<close> is imported
  from utils/encoding/toHex.ts, a file that is missing: it is a parameter of the model, a
  function on numbers that returns a hex string or throws.
\<close>

type_synonym ('e, 'a, 'w) async = "'w \<Rightarrow> ('e + 'a) \<times> 'w"

record 'h request_args =
  method' :: string
  params :: "'h list"

record ('h, 'e, 'r, 'w) TestClient =
  request :: "'h request_args \<Rightarrow> ('e, 'r, 'w) async"

record 'n IncreaseTimeParameters =
  seconds :: 'n

definition increaseTime ::
  "('n \<Rightarrow> 'e + 'h) \<Rightarrow> ('h, 'e, 'r, 'w) TestClient \<Rightarrow> 'n IncreaseTimeParameters
     \<Rightarrow> ('e, 'r, 'w) async" where
  "increaseTime numberToHex client parameters w =
     (case numberToHex (seconds parameters) of
        Inl err \<Rightarrow> (Inl err, w)
      | Inr hex \<Rightarrow> request client \<lparr>method' = ''evm_increaseTime'', params = [hex]\<rparr> w)"

text \<open>
  A client whose world is the list of the requests it has received: \<open>request\<close> appends
  its argument to the list and settles as \<open>respond\<close> says. It makes the number of
  requests an action issues observable.
\<close>

definition recording_client ::
  "('h request_args \<Rightarrow> 'e + 'r) \<Rightarrow> ('h, 'e, 'r, 'h request_args list) TestClient" where
  "recording_client respond = \<lparr>request = (\<lambda>args log. (respond args, log @ [args]))\<rparr>"

section \<open>createClient (clients/createClient.ts)\<close>

text \<open>
  Modelled from the spec: the type Client, whose file clients/createClient.ts is
  missing; of it there is only the type test. The spec describes a client as "an
  explicit struct owning references to exactly one transport and zero-or-one chain
  descriptor, constructed once". A chain that is \<open>undefined\<close> is \<open>None\<close>.
\<close>

record ('chain, 'transport) Client =
  chain :: "'chain option"
  transport :: 'transport

text \<open>
  Modelled from the spec: the function createClient of the missing file
  clients/createClient.ts. The type test calls it as
  \<open>createClient({ chain: localhost, transport: http() })\<close> and as
  \<open>createClient({ transport: http() })\<close>, and reads \<open>client.chain\<close>; the two members
  of the argument object are the two arguments of the model. Following the spec, the
  client is constructed once from them and owns them.
\<close>

definition createClient :: "'chain option \<Rightarrow> 'transport \<Rightarrow> ('chain, 'transport) Client" where
  "createClient config_chain config_transport =
     \<lparr>chain = config_chain, transport = config_transport\<rparr>"

section \<open>Auxiliary facts\<close>

subsection \<open>Lists and strings\<close>

lemma append_eq_literal:
  "(xs @ s = t) = (length s \<le> length t \<and> drop (length t - length s) t = s
                     \<and> xs = take (length t - length s) t)"
proof
  assume "xs @ s = t"
  then have t: "t = xs @ s" by simp
  show "length s \<le> length t \<and> drop (length t - length s) t = s
                     \<and> xs = take (length t - length s) t"
    unfolding t by simp
next
  assume a: "length s \<le> length t \<and> drop (length t - length s) t = s
                     \<and> xs = take (length t - length s) t"
  have "take (length t - length s) t @ drop (length t - length s) t = t"
    by (rule append_take_drop_id)
  with a show "xs @ s = t" by simp
qed

lemma remdups_append_same_set:
  assumes "set ys = set xs"
  shows "remdups (xs @ ys) = remdups ys"
  using assms by (intro remdups_append) simp

lemma remdups_concat_replicate: "0 < n \<Longrightarrow> remdups (concat (replicate n xs)) = remdups xs"
proof (induction n)
  case 0
  then show ?case by simp
next
  case (Suc n)
  show ?case
  proof (cases "n = 0")
    case True
    then show ?thesis by simp
  next
    case False
    define ys where "ys = concat (replicate n xs)"
    have ih: "remdups ys = remdups xs"
      using Suc.IH False by (simp add: ys_def)
    have "set ys = set xs"
      using False by (auto simp: ys_def)
    then have "remdups (xs @ ys) = remdups ys"
      by (rule remdups_append_same_set)
    with ih show ?thesis
      by (simp add: ys_def)
  qed
qed

lemma filter_concat_replicate:
  "filter P (concat (replicate n xs)) = concat (replicate n (filter P xs))"
  by (induction n) simp_all

lemma map_constant: "(\<forall>x\<in>set xs. f x = c) \<Longrightarrow> map f xs = replicate (length xs) c"
  by (induction xs) simp_all

subsection \<open>Unions\<close>

lemma ts_union_replicate:
  assumes "0 < n"
  shows "ts_union (replicate n T) = ts_union [T]"
proof -
  have "remdups (filter (\<lambda>t. t \<noteq> TNever) (concat (map union_members (replicate n T))))
      = remdups (filter (\<lambda>t. t \<noteq> TNever) (concat (map union_members [T])))"
    using assms by (simp add: filter_concat_replicate remdups_concat_replicate)
  then show ?thesis
    unfolding ts_union_def by simp
qed

lemma ts_union_pair: "ts_union [TRef a, TRef a] = TRef a"
  by (simp add: ts_union_def)

lemma union_members_object: "is_object t \<Longrightarrow> union_members t = [t]"
  by (cases t) simp_all

lemma concat_union_members_objects:
  "list_all is_object ts \<Longrightarrow> concat (map union_members ts) = ts"
  by (induction ts) (simp_all add: union_members_object)

lemma union_members_ts_union_objects:
  assumes obj: "list_all is_object ts" and ne: "ts \<noteq> []"
  shows "set (union_members (ts_union ts)) = set ts"
proof -
  have flat: "concat (map union_members ts) = ts"
    using obj by (rule concat_union_members_objects)
  have nn: "\<forall>t \<in> set ts. t \<noteq> TNever \<and> t \<noteq> TAny \<and> t \<noteq> TUnknown"
    using obj by (auto simp: list_all_iff)
  then have keep: "filter (\<lambda>t. t \<noteq> TNever) ts = ts"
    by (simp add: filter_id_conv)
  have notop: "TAny \<notin> set ts" "TUnknown \<notin> set ts"
    using nn by auto
  have eq: "ts_union ts = (case remdups ts of [] \<Rightarrow> TNever | [t] \<Rightarrow> t | _ \<Rightarrow> TUnion (remdups ts))"
    unfolding ts_union_def using notop by (simp add: flat keep Let_def)
  show ?thesis
  proof (cases "remdups ts")
    case Nil
    then show ?thesis using ne by simp
  next
    case (Cons t us)
    note c = this
    show ?thesis
    proof (cases us)
      case Nil
      with c have r: "remdups ts = [t]" by simp
      then have "set ts = {t}" by (metis set_remdups list.simps(15) empty_set)
      moreover from this obj have "is_object t" by (simp add: list_all_iff)
      ultimately show ?thesis using r by (simp add: eq union_members_object)
    next
      case (Cons u vs)
      with c have r: "remdups ts = t # u # vs" by simp
      have "set (remdups ts) = set ts" by simp
      then show ?thesis using r by (simp add: eq)
    qed
  qed
qed

subsection \<open>Tables and the request function\<close>

lemma entries_of_append: "entries_of (xs @ ys) m = entries_of xs m @ entries_of ys m"
  by (simp add: entries_of_def)

lemma methods_of_append: "methods_of (xs @ ys) = methods_of xs @ methods_of ys"
  by (simp add: methods_of_def)

lemma Extract_Method_literal: "Extract_Method schema (TLit m) = entries_of schema m"
  by (simp add: Extract_Method_def entries_of_def)

lemma params_arms_nonempty: "params_arms p \<noteq> []"
  by (simp add: params_arms_def Let_def)

text \<open>With a table, the parameter type admits exactly the method names of the table.\<close>

lemma accepts_method_schema:
  "accepts_method (EIP1193Parameters (Some schema)) m = (m \<in> set (methods_of schema))"
proof (cases "schema = []")
  case True
  then show ?thesis
    by (simp add: accepts_method_def EIP1193Parameters_def ts_union_def methods_of_def)
next
  case False
  let ?ts = "concat (map entry_parameters schema)"
  have obj: "list_all is_object ?ts"
    by (auto simp: list_all_iff entry_parameters_def)
  from False obtain e es where s: "schema = e # es" by (cases schema) auto
  have "entry_parameters e \<noteq> []"
    by (simp add: entry_parameters_def params_arms_nonempty)
  then have ne: "?ts \<noteq> []" by (simp add: s)
  have mem: "set (union_members (ts_union ?ts)) = set ?ts"
    by (rule union_members_ts_union_objects [OF obj ne])
  have "accepts_method (EIP1193Parameters (Some schema)) m
      = (\<exists>shape \<in> set ?ts. case object_member ''method'' shape of
                        Some (opt, t) \<Rightarrow> lit_extends m t | None \<Rightarrow> False)"
    by (simp add: accepts_method_def EIP1193Parameters_def list_ex_iff mem)
  also have "\<dots> = (\<exists>e \<in> set schema. \<exists>arm \<in> set (params_arms (Parameters e)). m = Method e)"
    by (auto simp: entry_parameters_def)
  also have "\<dots> = (\<exists>e \<in> set schema. m = Method e)"
    using params_arms_nonempty by (metis ex_in_conv set_empty)
  also have "\<dots> = (m \<in> set (methods_of schema))"
    by (auto simp: methods_of_def)
  finally show ?thesis .
qed

lemma accepts_method_no_schema: "accepts_method (EIP1193Parameters None) m"
  by (simp add: accepts_method_def EIP1193Parameters_def)

subsection \<open>Names of the three tables\<close>

lemma distinct_public_methods: "distinct (methods_of PublicRpcSchema)"
  by (simp add: methods_of_def PublicRpcSchema_def)

lemma distinct_wallet_methods: "distinct (methods_of WalletRpcSchema)"
  by (simp add: methods_of_def WalletRpcSchema_def)

lemma shared_method_names:
  "filter (\<lambda>m. m \<in> set (methods_of WalletRpcSchema)) (methods_of PublicRpcSchema) =
     [''eth_chainId'', ''eth_estimateGas'', ''eth_sendRawTransaction'']"
  by (simp add: methods_of_def WalletRpcSchema_def PublicRpcSchema_def)

lemma shared_entries_equal:
  "list_all (\<lambda>m. entries_of PublicRpcSchema m = entries_of WalletRpcSchema m
                   \<and> length (entries_of PublicRpcSchema m) = 1)
       [''eth_chainId'', ''eth_estimateGas'', ''eth_sendRawTransaction'']"
  by (simp add: entries_of_def WalletRpcSchema_def PublicRpcSchema_def)

lemma shared_ReturnTypes:
  "map (\<lambda>m. map ReturnType (entries_of EIP1474Methods m))
       [''eth_chainId'', ''eth_estimateGas'', ''eth_sendRawTransaction'']
   = [[Quantity, Quantity], [Quantity, Quantity], [Hash, Hash]]"
  by (simp add: EIP1474Methods_def entries_of_def WalletRpcSchema_def PublicRpcSchema_def)

text \<open>
  In the provider's table two entries with the same method name are the same entry: a
  name occurs once in each of the two tables, and a name they share has equal entries.
\<close>

lemma same_name_same_entry:
  assumes "distinct (methods_of schema)" "e \<in> set schema" "e' \<in> set schema"
    "Method e' = Method e"
  shows "e' = e"
proof -
  from assms(1) have "inj_on Method (set schema)"
    by (simp add: methods_of_def distinct_map)
  with assms(2-4) show ?thesis
    by (simp add: inj_on_def)
qed

lemma provider_same_name_same_entry:
  assumes e: "e \<in> set EIP1474Methods" and e': "e' \<in> set EIP1474Methods"
    and m: "Method e' = Method e"
  shows "e' = e"
proof -
  have cross: "a = b"
    if a: "a \<in> set PublicRpcSchema" and b: "b \<in> set WalletRpcSchema" and ab: "Method a = Method b"
    for a b
  proof -
    have pub: "Method a \<in> set (methods_of PublicRpcSchema)"
      using a by (simp add: methods_of_def)
    have "Method b \<in> set (methods_of WalletRpcSchema)"
      using b by (simp add: methods_of_def)
    then have wal: "Method a \<in> set (methods_of WalletRpcSchema)"
      unfolding ab .
    from pub wal
    have "Method a \<in> set (filter (\<lambda>m. m \<in> set (methods_of WalletRpcSchema))
                               (methods_of PublicRpcSchema))"
      by simp
    then have sh: "Method a \<in> set [''eth_chainId'', ''eth_estimateGas'', ''eth_sendRawTransaction'']"
      by (simp only: shared_method_names)
    from shared_entries_equal sh
    have eq: "entries_of PublicRpcSchema (Method a) = entries_of WalletRpcSchema (Method a)"
      and len: "length (entries_of PublicRpcSchema (Method a)) = 1"
      unfolding list_all_iff by blast+
    from len obtain x where x: "entries_of PublicRpcSchema (Method a) = [x]"
      by (cases "entries_of PublicRpcSchema (Method a)") auto
    have w: "entries_of WalletRpcSchema (Method a) = [x]"
      using x eq by metis
    have "a \<in> set (entries_of PublicRpcSchema (Method a))"
      using a by (simp add: entries_of_def)
    then have ax: "a = x"
      unfolding x by simp
    have "b \<in> set (entries_of WalletRpcSchema (Method a))"
      using b ab by (simp add: entries_of_def)
    then have bx: "b = x"
      unfolding w by simp
    from ax bx show ?thesis by simp
  qed
  from e e' have "(e \<in> set PublicRpcSchema \<or> e \<in> set WalletRpcSchema)
      \<and> (e' \<in> set PublicRpcSchema \<or> e' \<in> set WalletRpcSchema)"
    by (simp add: EIP1474Methods_def)
  then show ?thesis
    using m cross [of e e'] cross [of e' e]
      same_name_same_entry [OF distinct_public_methods, of e e']
      same_name_same_entry [OF distinct_wallet_methods, of e e']
    by auto
qed

lemma provider_ReturnTypes_normal:
  "list_all (\<lambda>e. ts_union [ReturnType e] = ReturnType e) EIP1474Methods"
  by (simp add: EIP1474Methods_def PublicRpcSchema_def WalletRpcSchema_def ts_union_def
        NetworkSync_def WalletPermission_def)

lemma provider_one_shape_per_name: "distinct (methods_of (remdups EIP1474Methods))"
proof -
  have "inj_on Method (set EIP1474Methods)"
    using provider_same_name_same_entry by (auto simp: inj_on_def)
  then show ?thesis
    by (simp add: methods_of_def distinct_map)
qed

text \<open>
  No method of the test table, whatever the mode, is a method of the provider's table:
  no name of the public or the wallet table ends with one of the suffixes that follow
  the mode, and none is one of the fixed names of the test table.
\<close>

lemma test_methods_not_in_provider:
  "set (methods_of (TestRpcSchema TMode)) \<inter> set (methods_of EIP1474Methods) = {}"
  by (simp add: methods_of_def TestRpcSchema_def EIP1474Methods_def PublicRpcSchema_def
        WalletRpcSchema_def append_eq_literal)

lemma getProof_not_in_provider: "''eth_getProof'' \<notin> set (methods_of EIP1474Methods)"
  by (simp add: methods_of_def EIP1474Methods_def PublicRpcSchema_def WalletRpcSchema_def)

lemma snapshot_not_in_provider: "''evm_snapshot'' \<notin> set (methods_of EIP1474Methods)"
  by (simp add: methods_of_def EIP1474Methods_def PublicRpcSchema_def WalletRpcSchema_def)

lemma getBalance_not_in_wallet: "''eth_getBalance'' \<notin> set (methods_of WalletRpcSchema)"
  by (simp add: methods_of_def WalletRpcSchema_def)

lemma snapshot_in_anvil: "''evm_snapshot'' \<in> set (methods_of (TestRpcSchema ''anvil''))"
  by (simp add: methods_of_def TestRpcSchema_def)

section \<open>The action increaseTime is a pass-through\<close>

text \<open>When \<open>numberToHex\<close> throws, the action rejects with that error and sends nothing.\<close>

lemma increaseTime_numberToHex_throws:
  assumes "numberToHex (seconds parameters) = Inl err"
  shows "increaseTime numberToHex client parameters w = (Inl err, w)"
  using assms by (simp add: increaseTime_def)

text \<open>
  Claim C1, as the spec states it, fails for a value of \<open>seconds\<close> that \<open>numberToHex\<close>
  does not encode: with an encoder that throws on a negative number, and a client that
  records its requests, \<open>increaseTime(client, { seconds: -1 })\<close> rejects with the
  encoder's error and the record of requests stays empty, so \<open>client.request\<close> is not
  called.
\<close>

theorem increaseTime_encoder_throws_counterexample:
  "increaseTime (\<lambda>n::int. if 0 \<le> n then Inr ''0x1a4'' else Inl ''IntegerOutOfRangeError'')
      (recording_client (\<lambda>args. (Inr ''0x1a4'' :: string + string))) \<lparr>seconds = - 1\<rparr> []
     = (Inl ''IntegerOutOfRangeError'', [])"
  by (rule increaseTime_numberToHex_throws) simp

text \<open>
  Claim C1, amended. For every client and every value of \<open>seconds\<close> that \<open>numberToHex\<close>
  encodes as \<open>hex\<close>, \<open>increaseTime(client, { seconds })\<close> is the one call
  \<open>client.request({ method: 'evm_increaseTime', params: [hex] })\<close>: it settles as that
  request settles and leaves the world that request leaves, with nothing decoded. On a
  client that records its requests, the record grows by exactly this one request, so
  nothing is sent twice.
\<close>

theorem increaseTime_pass_through:
  assumes "numberToHex (seconds parameters) = Inr hex"
  shows "increaseTime numberToHex client parameters w
           = request client \<lparr>method' = ''evm_increaseTime'', params = [hex]\<rparr> w
       \<and> increaseTime numberToHex (recording_client respond) parameters log
           = (respond \<lparr>method' = ''evm_increaseTime'', params = [hex]\<rparr>,
              log @ [\<lparr>method' = ''evm_increaseTime'', params = [hex]\<rparr>])"
  using assms by (simp add: increaseTime_def recording_client_def)

theorem increaseTime_pass_through_witness:
  "increaseTime (\<lambda>n::int. if 0 \<le> n then Inr ''0x1a4'' else Inl ''IntegerOutOfRangeError'')
      (recording_client (\<lambda>args. (Inr ''0x1a4'' :: string + string))) \<lparr>seconds = 420\<rparr> []
     = (Inr ''0x1a4'', [\<lparr>method' = ''evm_increaseTime'', params = [''0x1a4'']\<rparr>])"
  using increaseTime_pass_through
    [where numberToHex = "\<lambda>n::int. if 0 \<le> n then Inr ''0x1a4'' else Inl ''IntegerOutOfRangeError''"
       and parameters = "\<lparr>seconds = 420\<rparr>" and hex = "''0x1a4''"
       and client = "recording_client (\<lambda>args. (Inr ''0x1a4'' :: string + string))"
       and w = "[]" and respond = "\<lambda>args. (Inr ''0x1a4'' :: string + string)" and log = "[]"]
  by (simp add: recording_client_def)

section \<open>The request function narrows by method\<close>

text \<open>
  Claim C2. Let \<open>schema\<close> be the table in force for a request function (the overrides
  when given, else the function's own table) and \<open>e\<close> an entry of it. If the entries
  of the table that carry the method name of \<open>e\<close> agree on their \<open>ReturnType\<close>, and that
  type is written in normal form, then a request whose method is the literal
  \<open>Method e\<close> is admitted by the parameter type, and its declared result is exactly
  \<open>ReturnType e\<close>.
\<close>

theorem request_result_is_entry_ReturnType:
  assumes derived: "DerivedRpcSchema TRpcSchema TRpcSchemaOverrides = Some schema"
    and member: "e \<in> set schema"
    and agree: "\<forall>e' \<in> set schema. Method e' = Method e \<longrightarrow> ReturnType e' = ReturnType e"
    and normal: "ts_union [ReturnType e] = ReturnType e"
  shows "accepts_method (EIP1193RequestFn_Parameters TRpcSchema TRpcSchemaOverrides) (Method e)
       \<and> EIP1193RequestFn_ReturnType TRpcSchema TRpcSchemaOverrides (TLit (Method e))
           = ReturnType e"
proof -
  let ?es = "entries_of schema (Method e)"
  have in_es: "e \<in> set ?es"
    using member by (simp add: entries_of_def)
  then have pos: "0 < length ?es"
    by (cases ?es) auto
  have "\<forall>e' \<in> set ?es. ReturnType e' = ReturnType e"
    using agree by (simp add: entries_of_def)
  then have "map ReturnType ?es = replicate (length ?es) (ReturnType e)"
    by (rule map_constant)
  then have "ts_union (map ReturnType ?es) = ts_union [ReturnType e]"
    using pos by (simp add: ts_union_replicate)
  with normal have "ts_union (map ReturnType (Extract_Method schema (TLit (Method e)))) = ReturnType e"
    by (simp add: Extract_Method_literal)
  then have result: "EIP1193RequestFn_ReturnType TRpcSchema TRpcSchemaOverrides (TLit (Method e))
           = ReturnType e"
    by (simp add: EIP1193RequestFn_ReturnType_def derived)
  have "Method e \<in> set (methods_of schema)"
    using member by (simp add: methods_of_def)
  then have "accepts_method (EIP1193RequestFn_Parameters TRpcSchema TRpcSchemaOverrides) (Method e)"
    by (simp add: EIP1193RequestFn_Parameters_def derived accepts_method_schema)
  with result show ?thesis by simp
qed

theorem request_result_is_entry_ReturnType_witness:
  "list_all (\<lambda>e. accepts_method (EIP1193RequestFn_Parameters (Some EIP1474Methods) None) (Method e)
                 \<and> EIP1193RequestFn_ReturnType (Some EIP1474Methods) None (TLit (Method e))
                     = ReturnType e) EIP1474Methods
   \<and> EIP1193RequestFn_ReturnType (Some EIP1474Methods) None (TLit ''eth_chainId'') = Quantity"
proof -
  have derived: "DerivedRpcSchema (Some EIP1474Methods) None = Some EIP1474Methods"
    by (simp add: DerivedRpcSchema_def)
  have every: "accepts_method (EIP1193RequestFn_Parameters (Some EIP1474Methods) None) (Method e)
                 \<and> EIP1193RequestFn_ReturnType (Some EIP1474Methods) None (TLit (Method e))
                     = ReturnType e"
    if e: "e \<in> set EIP1474Methods" for e
  proof -
    have agree: "\<forall>e' \<in> set EIP1474Methods. Method e' = Method e \<longrightarrow> ReturnType e' = ReturnType e"
      using provider_same_name_same_entry [OF e] by blast
    have normal: "ts_union [ReturnType e] = ReturnType e"
      using provider_ReturnTypes_normal e unfolding list_all_iff by blast
    show ?thesis
      by (rule request_result_is_entry_ReturnType [OF derived e agree normal])
  qed
  have "\<lparr>Method = ''eth_chainId'', Parameters = Optional TNever, ReturnType = Quantity\<rparr>
          \<in> set EIP1474Methods"
    by (simp add: EIP1474Methods_def PublicRpcSchema_def)
  from every [OF this]
  have "EIP1193RequestFn_ReturnType (Some EIP1474Methods) None (TLit ''eth_chainId'') = Quantity"
    by simp
  with every show ?thesis
    unfolding list_all_iff by blast
qed

section \<open>Requests without a table, and methods outside a table\<close>

text \<open>
  Claim C3, as the spec states it, fails where a table is in force: \<open>eth_getProof\<close> is
  not a method of \<open>EIP1474Methods\<close>, and the parameter type of
  \<open>EIP1193RequestFn<EIP1474Methods>\<close> does not admit it: the method is rejected, not
  passed through.
\<close>

theorem unknown_method_with_schema_counterexample:
  "''eth_getProof'' \<notin> set (methods_of EIP1474Methods)
   \<and> \<not> accepts_method (EIP1193RequestFn_Parameters (Some EIP1474Methods) None) ''eth_getProof''"
  using getProof_not_in_provider
  by (simp add: EIP1193RequestFn_Parameters_def DerivedRpcSchema_def accepts_method_schema)

text \<open>
  Claim C3, amended. When no table constrains the request function (it has none and the
  call gives no overrides), its parameter type is \<open>{ method: string, params?: unknown }\<close>:
  every method name is admitted, the params are unconstrained, and the result type is
  \<open>unknown\<close> whatever the method. When a table is in force (the overrides of the call
  when given, else the function's own table), the method names admitted are exactly
  those of that table: a method outside it is rejected, not passed through.
\<close>

theorem request_without_schema_is_unchecked:
  "EIP1193RequestFn_Parameters None None
     = TObject [(''method'', False, TString), (''params'', True, TUnknown)]
   \<and> accepts_method (EIP1193RequestFn_Parameters None None) m
   \<and> EIP1193RequestFn_ReturnType None None M = TUnknown
   \<and> (DerivedRpcSchema TRpcSchema TRpcSchemaOverrides = Some schema \<longrightarrow>
        accepts_method (EIP1193RequestFn_Parameters TRpcSchema TRpcSchemaOverrides) m
          = (m \<in> set (methods_of schema)))"
proof -
  have derived: "DerivedRpcSchema None None = None"
    by (simp add: DerivedRpcSchema_def)
  have a: "EIP1193RequestFn_Parameters None None
     = TObject [(''method'', False, TString), (''params'', True, TUnknown)]"
    by (simp add: EIP1193RequestFn_Parameters_def derived EIP1193Parameters_def)
  have b: "accepts_method (EIP1193RequestFn_Parameters None None) m"
    unfolding EIP1193RequestFn_Parameters_def derived by (rule accepts_method_no_schema)
  have c: "EIP1193RequestFn_ReturnType None None M = TUnknown"
    by (simp add: EIP1193RequestFn_ReturnType_def derived)
  have d: "accepts_method (EIP1193RequestFn_Parameters TRpcSchema TRpcSchemaOverrides) m
          = (m \<in> set (methods_of schema))"
    if "DerivedRpcSchema TRpcSchema TRpcSchemaOverrides = Some schema"
    unfolding EIP1193RequestFn_Parameters_def that by (rule accepts_method_schema)
  from a b c d show ?thesis by blast
qed

theorem request_without_schema_is_unchecked_witness:
  "accepts_method (EIP1193RequestFn_Parameters None None) ''eth_getBalance''
   \<and> EIP1193RequestFn_ReturnType None None (TLit ''eth_getBalance'') = TUnknown
   \<and> \<not> accepts_method (EIP1193RequestFn_Parameters (Some WalletRpcSchema) None) ''eth_getBalance''
   \<and> accepts_method
        (EIP1193RequestFn_Parameters (Some EIP1474Methods) (Some (TestRpcSchema ''anvil'')))
        ''evm_snapshot''"
proof -
  have own: "DerivedRpcSchema (Some WalletRpcSchema) None = Some WalletRpcSchema"
    by (simp add: DerivedRpcSchema_def)
  have over: "DerivedRpcSchema (Some EIP1474Methods) (Some (TestRpcSchema ''anvil''))
                = Some (TestRpcSchema ''anvil'')"
    by (simp add: DerivedRpcSchema_def)
  show ?thesis
    using request_without_schema_is_unchecked
        [where m = "''eth_getBalance''" and M = "TLit ''eth_getBalance''"
           and TRpcSchema = "Some WalletRpcSchema" and TRpcSchemaOverrides = None
           and schema = WalletRpcSchema]
      request_without_schema_is_unchecked
        [where m = "''evm_snapshot''" and M = "TLit ''evm_snapshot''"
           and TRpcSchema = "Some EIP1474Methods"
           and TRpcSchemaOverrides = "Some (TestRpcSchema ''anvil'')"
           and schema = "TestRpcSchema ''anvil''"]
      own over getBalance_not_in_wallet snapshot_in_anvil
    by blast
qed

section \<open>The table of the provider\<close>

text \<open>
  Claim C4, as the spec states it, fails for the test table: \<open>evm_snapshot\<close> is a method
  of \<open>TestRpcSchema\<close> (here in mode \<open>anvil\<close>) and is not a method of \<open>EIP1474Methods\<close>,
  the table of \<open>EIP1193Provider\<close>, whose request function does not admit it.
\<close>

theorem test_methods_outside_provider_counterexample:
  "''evm_snapshot'' \<in> set (methods_of (TestRpcSchema ''anvil''))
   \<and> ''evm_snapshot'' \<notin> set (methods_of EIP1474Methods)
   \<and> \<not> accepts_method (EIP1193RequestFn_Parameters EIP1193Provider_request None) ''evm_snapshot''"
proof -
  have "''evm_snapshot'' \<in> set (methods_of (TestRpcSchema ''anvil''))"
    by (simp add: methods_of_def TestRpcSchema_def)
  with snapshot_not_in_provider show ?thesis
    by (simp add: EIP1193RequestFn_Parameters_def DerivedRpcSchema_def accepts_method_schema
          EIP1193Provider_request_def)
qed

text \<open>
  Claim C4, amended. The table that the request function of \<open>EIP1193Provider\<close> resolves
  against is the public table followed by the wallet table: the method names it admits
  are exactly those of \<open>PublicRpcSchema\<close> and \<open>WalletRpcSchema\<close>. The test table is a
  separate table: in no mode does one of its methods belong to the provider's table.
\<close>

theorem provider_schema_is_public_and_wallet:
  "EIP1193Provider_request = Some (PublicRpcSchema @ WalletRpcSchema)
   \<and> accepts_method (EIP1193RequestFn_Parameters EIP1193Provider_request None) m
       = (m \<in> set (methods_of PublicRpcSchema) \<union> set (methods_of WalletRpcSchema))
   \<and> set (methods_of (TestRpcSchema TMode))
       \<inter> (set (methods_of PublicRpcSchema) \<union> set (methods_of WalletRpcSchema)) = {}"
proof -
  have "set (methods_of EIP1474Methods)
          = set (methods_of PublicRpcSchema) \<union> set (methods_of WalletRpcSchema)"
    by (simp add: EIP1474Methods_def methods_of_append)
  with test_methods_not_in_provider [of TMode] show ?thesis
    by (simp add: EIP1193RequestFn_Parameters_def DerivedRpcSchema_def accepts_method_schema
          EIP1193Provider_request_def EIP1474Methods_def)
qed

section \<open>Parameters as ordered sequences\<close>

text \<open>
  Claim C5, as the spec states it, fails at \<open>wallet_watchAsset\<close>: the entry is in the
  wallet table and its \<open>Parameters\<close> is the object type \<open>WatchAssetParams\<close>, which is
  neither a tuple nor an array.
\<close>

theorem watchAsset_parameters_counterexample:
  "\<lparr>Method = ''wallet_watchAsset'', Parameters = Required WatchAssetParams,
      ReturnType = TBoolean\<rparr> \<in> set WalletRpcSchema
   \<and> \<not> declares_sequence (Parameters \<lparr>Method = ''wallet_watchAsset'',
          Parameters = Required WatchAssetParams, ReturnType = TBoolean\<rparr>)"
  by (simp add: WalletRpcSchema_def WatchAssetParams_def)

text \<open>
  Claim C5, amended. Every entry of the public table and of the test table (in any
  mode) declares its \<open>Parameters\<close> as an ordered sequence (a tuple, an array or a union
  of tuples) or declares none (\<open>Parameters?: never\<close>). So does every entry of the wallet
  table but one: \<open>wallet_watchAsset\<close>, and only it, declares a single object,
  \<open>WatchAssetParams\<close>.
\<close>

theorem parameters_are_sequences_except_watchAsset:
  "list_all (\<lambda>e. declares_sequence (Parameters e)) (PublicRpcSchema @ TestRpcSchema TMode)
   \<and> list_all (\<lambda>e. declares_sequence (Parameters e) = (Method e \<noteq> ''wallet_watchAsset''))
        WalletRpcSchema
   \<and> map Parameters (entries_of WalletRpcSchema ''wallet_watchAsset'') = [Required WatchAssetParams]
   \<and> is_object WatchAssetParams"
proof -
  have "list_all (\<lambda>e. declares_sequence (Parameters e)) PublicRpcSchema"
    by (simp add: PublicRpcSchema_def)
  moreover have "list_all (\<lambda>e. declares_sequence (Parameters e)) (TestRpcSchema TMode)"
    by (simp add: TestRpcSchema_def)
  moreover have "list_all (\<lambda>e. declares_sequence (Parameters e) = (Method e \<noteq> ''wallet_watchAsset''))
        WalletRpcSchema"
    by (simp add: WalletRpcSchema_def WatchAssetParams_def)
  moreover have "map Parameters (entries_of WalletRpcSchema ''wallet_watchAsset'')
      = [Required WatchAssetParams]"
    by (simp add: WalletRpcSchema_def entries_of_def)
  moreover have "is_object WatchAssetParams"
    by (simp add: WatchAssetParams_def)
  ultimately show ?thesis by simp
qed

section \<open>eth_call and eth_sendRawTransaction\<close>

text \<open>
  Claim C6. The entry of \<open>eth_call\<close> in the public table takes either one parameter, a
  partial transaction request, or two, the partial transaction request and then a block
  selector (a block number, a block tag or a block identifier), so a parameter list of
  \<open>n\<close> values fits exactly when \<open>n\<close> is 1 or 2; its result is \<open>Hex\<close>. The entry of
  \<open>eth_sendRawTransaction\<close> takes exactly one parameter, the signed transaction as
  \<open>Hex\<close>, and its result is \<open>Hash\<close>.
\<close>

theorem eth_call_and_sendRawTransaction_shapes:
  "map (\<lambda>e. (Parameters e, ReturnType e)) (entries_of PublicRpcSchema ''eth_call'') =
     [(Required (TUnion
         [TTuple [(''transaction'', TPartial TransactionRequest)],
          TTuple [(''transaction'', TPartial TransactionRequest),
                  (''block'', TUnion [BlockNumber, BlockTag, BlockIdentifier])]]), Hex)]
   \<and> (\<forall>n. list_all (\<lambda>e. accepts_length (indexed_Parameters (Parameters e)) n = (n = 1 \<or> n = 2))
              (entries_of PublicRpcSchema ''eth_call''))
   \<and> map (\<lambda>e. (Parameters e, ReturnType e))
         (entries_of PublicRpcSchema ''eth_sendRawTransaction'') =
     [(Required (TTuple [(''signedTransaction'', Hex)]), Hash)]
   \<and> (\<forall>n. list_all (\<lambda>e. accepts_length (indexed_Parameters (Parameters e)) n = (n = 1))
              (entries_of PublicRpcSchema ''eth_sendRawTransaction''))"
  by (simp add: entries_of_def PublicRpcSchema_def numeral_2_eq_2)

section \<open>The dev-node methods of the test table\<close>

text \<open>
  Claim C7, as the spec states it, fails for \<open>evm_mine\<close>: the test table of the mode
  \<open>anvil\<close> has no entry of that name.
\<close>

theorem evm_mine_counterexample:
  "''evm_mine'' \<notin> set (methods_of (TestRpcSchema ''anvil''))
   \<and> entries_of (TestRpcSchema ''anvil'') ''evm_mine'' = []"
  by (simp add: methods_of_def entries_of_def TestRpcSchema_def)

text \<open>
  Claim C7, amended. In every mode the test table has exactly one entry \<open>evm_snapshot\<close>
  (no parameters, result \<open>Quantity\<close>) and exactly one entry \<open>evm_revert\<close> (an optional
  parameter list of one snapshot id); it has the entry \<open>evm_increaseTime\<close> with the one
  parameter \<open>seconds: Quantity\<close>, and every entry of that name takes one parameter and
  returns \<open>Quantity\<close>. The mining method is named after the mode: the table has exactly
  one entry \<open>`${TMode}_mine`\<close> (a count and an interval, result \<open>void\<close>), and a method
  \<open>evm_mine\<close> exactly when the mode is \<open>evm\<close>.
\<close>

theorem dev_node_entries:
  "entries_of (TestRpcSchema TMode) ''evm_snapshot''
     = [\<lparr>Method = ''evm_snapshot'', Parameters = Optional TNever, ReturnType = Quantity\<rparr>]
   \<and> entries_of (TestRpcSchema TMode) ''evm_revert''
     = [\<lparr>Method = ''evm_revert'', Parameters = Optional (TTuple [(''id'', Quantity)]),
          ReturnType = TVoid\<rparr>]
   \<and> \<lparr>Method = ''evm_increaseTime'', Parameters = Required (TTuple [(''seconds'', Quantity)]),
        ReturnType = Quantity\<rparr> \<in> set (TestRpcSchema TMode)
   \<and> list_all (\<lambda>e. ReturnType e = Quantity \<and> accepts_length (indexed_Parameters (Parameters e)) 1)
        (entries_of (TestRpcSchema TMode) ''evm_increaseTime'')
   \<and> entries_of (TestRpcSchema TMode) (TMode @ ''_mine'')
     = [\<lparr>Method = TMode @ ''_mine'',
          Parameters = Required (TTuple [(''count'', Hex), (''interval'', TUnion [Hex, TUndefined])]),
          ReturnType = TVoid\<rparr>]
   \<and> (''evm_mine'' \<in> set (methods_of (TestRpcSchema TMode))) = (TMode = ''evm'')"
proof -
  have a: "entries_of (TestRpcSchema TMode) ''evm_snapshot''
     = [\<lparr>Method = ''evm_snapshot'', Parameters = Optional TNever, ReturnType = Quantity\<rparr>]"
    by (simp add: entries_of_def TestRpcSchema_def append_eq_literal)
  have b: "entries_of (TestRpcSchema TMode) ''evm_revert''
     = [\<lparr>Method = ''evm_revert'', Parameters = Optional (TTuple [(''id'', Quantity)]),
          ReturnType = TVoid\<rparr>]"
    by (simp add: entries_of_def TestRpcSchema_def append_eq_literal)
  have c: "\<lparr>Method = ''evm_increaseTime'', Parameters = Required (TTuple [(''seconds'', Quantity)]),
        ReturnType = Quantity\<rparr> \<in> set (TestRpcSchema TMode)"
    by (simp add: TestRpcSchema_def)
  have d: "list_all (\<lambda>e. ReturnType e = Quantity \<and> accepts_length (indexed_Parameters (Parameters e)) 1)
        (entries_of (TestRpcSchema TMode) ''evm_increaseTime'')"
    by (simp add: entries_of_def TestRpcSchema_def append_eq_literal)
  have e: "entries_of (TestRpcSchema TMode) (TMode @ ''_mine'')
     = [\<lparr>Method = TMode @ ''_mine'',
          Parameters = Required (TTuple [(''count'', Hex), (''interval'', TUnion [Hex, TUndefined])]),
          ReturnType = TVoid\<rparr>]"
    by (simp add: entries_of_def TestRpcSchema_def append_eq_literal)
  have f: "(''evm_mine'' \<in> set (methods_of (TestRpcSchema TMode))) = (TMode = ''evm'')"
    by (auto simp add: methods_of_def TestRpcSchema_def append_eq_literal)
  from a b c d e f show ?thesis by blast
qed

section \<open>The chain of a client\<close>

text \<open>
  Claim C8. A client made by \<open>createClient\<close> has the chain it was made with: called
  with a chain, its \<open>chain\<close> is that chain descriptor; called without one, its \<open>chain\<close>
  is undefined. Its transport is the one it was made with.
\<close>

theorem createClient_chain:
  "chain (createClient (Some c) t) = Some c
   \<and> chain (createClient None t) = None
   \<and> transport (createClient config_chain t) = t"
  by (simp add: createClient_def)

section \<open>Methods that the public and the wallet table share\<close>

text \<open>
  Claim C9. The method names that occur in both \<open>PublicRpcSchema\<close> and
  \<open>WalletRpcSchema\<close> are \<open>eth_chainId\<close>, \<open>eth_estimateGas\<close> and
  \<open>eth_sendRawTransaction\<close>. For each of them the two tables hold the same single entry
  (the same \<open>Parameters\<close> and the same \<open>ReturnType\<close>). No name occurs twice inside one
  table, so in the concatenation \<open>EIP1474Methods\<close> a shared name has one shape (once equal
  entries are merged, the names of the table are distinct), and narrowing the request
  function by such a name gives one result type.
\<close>

theorem shared_methods_agree:
  "filter (\<lambda>m. m \<in> set (methods_of WalletRpcSchema)) (methods_of PublicRpcSchema) =
     [''eth_chainId'', ''eth_estimateGas'', ''eth_sendRawTransaction'']
   \<and> list_all (\<lambda>m. entries_of PublicRpcSchema m = entries_of WalletRpcSchema m
                   \<and> length (entries_of PublicRpcSchema m) = 1)
       [''eth_chainId'', ''eth_estimateGas'', ''eth_sendRawTransaction'']
   \<and> distinct (methods_of PublicRpcSchema) \<and> distinct (methods_of WalletRpcSchema)
   \<and> list_all (\<lambda>m. length (remdups (entries_of EIP1474Methods m)) = 1)
       [''eth_chainId'', ''eth_estimateGas'', ''eth_sendRawTransaction'']
   \<and> distinct (methods_of (remdups EIP1474Methods))
   \<and> map (\<lambda>m. EIP1193RequestFn_ReturnType (Some EIP1474Methods) None (TLit m))
       [''eth_chainId'', ''eth_estimateGas'', ''eth_sendRawTransaction'']
     = [Quantity, Quantity, Hash]"
proof -
  have same: "entries_of PublicRpcSchema m = entries_of WalletRpcSchema m
                \<and> length (entries_of PublicRpcSchema m) = 1"
    if "m \<in> set [''eth_chainId'', ''eth_estimateGas'', ''eth_sendRawTransaction'']" for m
    using shared_entries_equal that unfolding list_all_iff by blast
  have one: "length (remdups (entries_of EIP1474Methods m)) = 1"
    if m: "m \<in> set [''eth_chainId'', ''eth_estimateGas'', ''eth_sendRawTransaction'']" for m
  proof -
    have eq: "entries_of PublicRpcSchema m = entries_of WalletRpcSchema m"
      using same [OF m] by (rule conjunct1)
    have len: "length (entries_of PublicRpcSchema m) = 1"
      using same [OF m] by (rule conjunct2)
    from len obtain e where p: "entries_of PublicRpcSchema m = [e]"
      by (cases "entries_of PublicRpcSchema m") auto
    with eq have e: "entries_of WalletRpcSchema m = [e]" "entries_of PublicRpcSchema m = [e]"
      by simp_all
    show ?thesis
      by (simp add: EIP1474Methods_def entries_of_append e)
  qed
  have ret: "map (\<lambda>m. EIP1193RequestFn_ReturnType (Some EIP1474Methods) None (TLit m))
       [''eth_chainId'', ''eth_estimateGas'', ''eth_sendRawTransaction'']
     = [Quantity, Quantity, Hash]"
    using shared_ReturnTypes
    by (simp add: EIP1193RequestFn_ReturnType_def DerivedRpcSchema_def Extract_Method_literal
          ts_union_pair)
  from one have "list_all (\<lambda>m. length (remdups (entries_of EIP1474Methods m)) = 1)
       [''eth_chainId'', ''eth_estimateGas'', ''eth_sendRawTransaction'']"
    unfolding list_all_iff by blast
  with shared_method_names shared_entries_equal distinct_public_methods distinct_wallet_methods
    provider_one_shape_per_name ret
  show ?thesis by blast
qed

section \<open>eth_sign and personal_sign\<close>

text \<open>
  Claim C10. In the wallet table \<open>eth_sign\<close> declares the parameters
  \<open>[address: Address, data: Hex]\<close> and \<open>personal_sign\<close> declares the same two
  parameters in the opposite order, \<open>[data: Hex, address: Address]\<close>; both return
  \<open>Hex\<close>. The two parameter declarations differ, so there is no argument order common
  to the two methods.
\<close>

theorem sign_argument_orders:
  "map (\<lambda>e. (Parameters e, ReturnType e)) (entries_of WalletRpcSchema ''eth_sign'') =
     [(Required (TTuple [(''address'', Address), (''data'', Hex)]), Hex)]
   \<and> map (\<lambda>e. (Parameters e, ReturnType e)) (entries_of WalletRpcSchema ''personal_sign'') =
     [(Required (TTuple (rev [(''address'', Address), (''data'', Hex)])), Hex)]
   \<and> rev [(''address'', Address), (''data'', Hex)] = [(''data'', Hex), (''address'', Address)]
   \<and> map Parameters (entries_of WalletRpcSchema ''eth_sign'')
       \<noteq> map Parameters (entries_of WalletRpcSchema ''personal_sign'')"
  by (simp add: entries_of_def WalletRpcSchema_def)

end
